theory Spec2Isabelle
  imports Main "HOL-Library.Sublist" "HOL-Library.Multiset"
begin

section \<open>The batch runner of run\_simulations.py\<close>

text \<open>
  The script runs one external process per simulation file through a process pool, writes a
  log file per simulation and logs a summary line per simulation. Everything the script does
  to its surroundings (the file system, the clock, the child process) is a call into the
  operating system; the model takes the operating system as a parameter \<open>os\<close>, a record of
  functions over an arbitrary world \<open>'w\<close>, and threads the world through the calls in the
  order in which the source makes them. Every effectful call is recorded in a trace, so that
  "no process is launched" is a statement about the trace.

  The logging configuration of lines 10 to 18 is set-up of the logging library and is not
  modelled: a logging call is the record it emits, appended to the trace. The functions of
  \<open>os.path\<close> are those of the POSIX flavour of the module.
\<close>

subsection \<open>Python values\<close>

text \<open>Instances of subclasses of \<open>Exception\<close>, which \<open>except Exception\<close> catches.\<close>

datatype py_exception =
    FileNotFoundError string
  | PermissionError string
  | OSError string
  | UnicodeDecodeError string
  | ValueError string

text \<open>\<open>str(e)\<close>, as the f-strings of the handlers format the exception.\<close>

fun str_exc :: "py_exception \<Rightarrow> string" where
  "str_exc (FileNotFoundError m) = m"
| "str_exc (PermissionError m) = m"
| "str_exc (OSError m) = m"
| "str_exc (UnicodeDecodeError m) = m"
| "str_exc (ValueError m) = m"

text \<open>What \<open>subprocess.run\<close> returns: a \<open>CompletedProcess\<close>.\<close>

record completed_process =
  returncode :: int
  stdout :: string
  stderr :: string

text \<open>\<open>str(n)\<close> for an integer, as \<open>{result.returncode}\<close> formats it.\<close>

fun str_nat :: "nat \<Rightarrow> string" where
  "str_nat n = (if n < 10 then [''0123456789'' ! n]
                else str_nat (n div 10) @ [''0123456789'' ! (n mod 10)])"

definition str_int :: "int \<Rightarrow> string" where
  "str_int i = (if i < 0 then CHR ''-'' # str_nat (nat (- i)) else str_nat (nat i))"

text \<open>\<open>sep.join(xs)\<close>.\<close>

fun str_join :: "string \<Rightarrow> string list \<Rightarrow> string" where
  "str_join sep [] = []"
| "str_join sep [x] = x"
| "str_join sep (x # y # ys) = x @ sep @ str_join sep (y # ys)"

text \<open>
  \<open>s.replace(old, new)\<close>: every occurrence of \<open>old\<close>, found from the left and not
  overlapping, becomes \<open>new\<close>. For an empty \<open>old\<close> Python puts \<open>new\<close> before every
  character and at the end.
\<close>

fun replace_scan :: "string \<Rightarrow> string \<Rightarrow> string \<Rightarrow> string" where
  "replace_scan old new [] = []"
| "replace_scan old new (c # cs) =
     (if prefix old (c # cs) then new @ replace_scan old new (drop (length old - 1) cs)
      else c # replace_scan old new cs)"

definition str_replace :: "string \<Rightarrow> string \<Rightarrow> string \<Rightarrow> string" where
  "str_replace old new s =
     (if old = [] then new @ concat (map (\<lambda>c. c # new) s) else replace_scan old new s)"

text \<open>\<open>os.path.basename\<close> and \<open>os.path.join\<close> of two components (posixpath).\<close>

definition os_path_basename :: "string \<Rightarrow> string" where
  "os_path_basename p = rev (takeWhile (\<lambda>c. c \<noteq> CHR ''/'') (rev p))"

definition os_path_join :: "string \<Rightarrow> string \<Rightarrow> string" where
  "os_path_join a b =
     (if prefix ''/'' b then b
      else if a = [] \<or> suffix ''/'' a then a @ b
      else a @ ''/'' @ b)"

subsection \<open>The operating system and the state of the run\<close>

text \<open>
  The operating system as the script sees it. \<open>'w\<close> is the world (file system, clock,
  processes), \<open>'f\<close> the type of the floats that \<open>time.time()\<close> returns; their subtraction
  and their formatting with \<open>:.2f\<close> are parameters, so that no theorem depends on floating
  point arithmetic.
  \<^item> \<open>env_script_dir\<close> is \<open>sys.path[0]\<close>;
  \<^item> \<open>env_exists\<close> is \<open>os.path.exists\<close>, which reads the world and never raises;
  \<^item> \<open>env_access_x\<close> is \<open>os.access(p, os.X_OK)\<close>: the script never calls it; it is here
    to say what the script does not check;
  \<^item> \<open>env_getcwd\<close> is \<open>os.getcwd\<close>, \<open>env_makedirs\<close> is \<open>os.makedirs\<close>;
  \<^item> \<open>env_time\<close> is \<open>time.time\<close>;
  \<^item> \<open>env_run\<close> is \<open>subprocess.run(command, capture_output=True, text=True, cwd=cwd)\<close>: it
    raises, or returns the completed process whatever its return code (no \<open>check=True\<close>);
  \<^item> \<open>env_write\<close> is \<open>open(path, "w", encoding="utf-8")\<close> followed by \<open>f.write(content)\<close>.
\<close>

record ('w, 'f) os_env =
  env_script_dir :: string
  env_exists :: "string \<Rightarrow> 'w \<Rightarrow> bool"
  env_access_x :: "string \<Rightarrow> 'w \<Rightarrow> bool"
  env_getcwd :: "'w \<Rightarrow> py_exception + string"
  env_makedirs :: "string \<Rightarrow> 'w \<Rightarrow> py_exception option \<times> 'w"
  env_time :: "'w \<Rightarrow> 'f \<times> 'w"
  env_fsub :: "'f \<Rightarrow> 'f \<Rightarrow> 'f"
  env_fmt2 :: "'f \<Rightarrow> string"
  env_run :: "string list \<Rightarrow> string \<Rightarrow> 'w \<Rightarrow> (py_exception + completed_process) \<times> 'w"
  env_write :: "string \<Rightarrow> string \<Rightarrow> 'w \<Rightarrow> py_exception option \<times> 'w"

datatype level = DEBUG | INFO | ERROR

datatype event =
    Log level string
  | ClockRead
  | Subprocess "string list" string
  | FileWrite string string
  | MakeDirs string

record 'w state =
  world :: 'w
  trace :: "event list"

text \<open>
  The logging calls. \<open>logging.exception\<close> emits its message at level ERROR; the traceback
  it adds to the record is not modelled.
\<close>

definition logging_debug :: "string \<Rightarrow> 'w state \<Rightarrow> 'w state" where
  "logging_debug msg s = s\<lparr>trace := trace s @ [Log DEBUG msg]\<rparr>"

definition logging_info :: "string \<Rightarrow> 'w state \<Rightarrow> 'w state" where
  "logging_info msg s = s\<lparr>trace := trace s @ [Log INFO msg]\<rparr>"

definition logging_error :: "string \<Rightarrow> 'w state \<Rightarrow> 'w state" where
  "logging_error msg s = s\<lparr>trace := trace s @ [Log ERROR msg]\<rparr>"

definition logging_exception :: "string \<Rightarrow> 'w state \<Rightarrow> 'w state" where
  "logging_exception msg s = s\<lparr>trace := trace s @ [Log ERROR msg]\<rparr>"

text \<open>The calls into the operating system, each recorded in the trace.\<close>

definition os_path_exists :: "('w, 'f) os_env \<Rightarrow> string \<Rightarrow> 'w state \<Rightarrow> bool" where
  "os_path_exists os p s = env_exists os p (world s)"

definition time_time :: "('w, 'f) os_env \<Rightarrow> 'w state \<Rightarrow> 'f \<times> 'w state" where
  "time_time os s =
     (case env_time os (world s) of
        (t, w) \<Rightarrow> (t, s\<lparr>world := w, trace := trace s @ [ClockRead]\<rparr>))"

text \<open>
  \<open>subprocess.run(command, capture_output=True, text=True, cwd=os.getcwd())\<close>: the argument
  \<open>os.getcwd()\<close> is evaluated first, and when it raises no process is launched.
\<close>

definition subprocess_run ::
  "('w, 'f) os_env \<Rightarrow> string list \<Rightarrow> 'w state \<Rightarrow> (py_exception + completed_process) \<times> 'w state"
where
  "subprocess_run os command s =
     (case env_getcwd os (world s) of
        Inl e \<Rightarrow> (Inl e, s)
      | Inr cwd \<Rightarrow>
          (case env_run os command cwd (world s) of
             (r, w) \<Rightarrow> (r, s\<lparr>world := w, trace := trace s @ [Subprocess command cwd]\<rparr>)))"

definition open_write ::
  "('w, 'f) os_env \<Rightarrow> string \<Rightarrow> string \<Rightarrow> 'w state \<Rightarrow> py_exception option \<times> 'w state"
where
  "open_write os path content s =
     (case env_write os path content (world s) of
        (r, w) \<Rightarrow> (r, s\<lparr>world := w, trace := trace s @ [FileWrite path content]\<rparr>))"

definition os_makedirs ::
  "('w, 'f) os_env \<Rightarrow> string \<Rightarrow> 'w state \<Rightarrow> py_exception option \<times> 'w state"
where
  "os_makedirs os path s =
     (case env_makedirs os path (world s) of
        (r, w) \<Rightarrow> (r, s\<lparr>world := w, trace := trace s @ [MakeDirs path]\<rparr>))"

subsection \<open>The constants of the script\<close>

definition CONTAM_EXE :: "('w, 'f) os_env \<Rightarrow> string" where
  "CONTAM_EXE os = os_path_join (env_script_dir os) ''contamx3.exe''"

definition SIMULATION_FILES :: "string list" where
  "SIMULATION_FILES =
     [os_path_join ''simulations'' ''sim1.prj'',
      os_path_join ''simulations'' ''sim2.prj'',
      os_path_join ''simulations'' ''sim3.prj'']"

subsection \<open>run\_contam\<close>

text \<open>
  The text of the log file of a simulation (\<open>log_details\<close>, with the elapsed time
  formatted by \<open>:.2f\<close>) and the path of the file (\<open>output_log_file\<close>).
\<close>

definition log_details ::
  "('w, 'f) os_env \<Rightarrow> string list \<Rightarrow> 'f \<Rightarrow> completed_process \<Rightarrow> string"
where
  "log_details os command elapsed_time result =
     ''Command: '' @ str_join '' '' command @ [CHR 0x0A]
     @ ''Elapsed Time: '' @ env_fmt2 os elapsed_time @ '' seconds'' @ [CHR 0x0A]
     @ ''Return Code: '' @ str_int (returncode result) @ [CHR 0x0A]
     @ ''STDOUT:'' @ [CHR 0x0A] @ stdout result @ [CHR 0x0A]
     @ ''STDERR:'' @ [CHR 0x0A] @ stderr result @ [CHR 0x0A]"

definition output_log_file :: "string \<Rightarrow> string" where
  "output_log_file simulation_name =
     os_path_join ''output'' (str_replace ''.prj'' ''.log'' simulation_name)"

text \<open>
  The function returns \<open>Inr\<close> of its summary string, or \<open>Inl\<close> of an exception that leaves
  it. The two calls that can raise are inside \<open>try\<close> blocks whose handlers catch
  \<open>Exception\<close>.
\<close>

definition run_contam ::
  "('w, 'f) os_env \<Rightarrow> string \<Rightarrow> 'w state \<Rightarrow> (py_exception + string) \<times> 'w state"
where
  "run_contam os sim_file s0 =
     (let simulation_name = os_path_basename sim_file;
          s1 = logging_info (''Starting simulation for '' @ simulation_name) s0
      in if \<not> os_path_exists os sim_file s1 then
           (let error_message = ''Simulation file not found: '' @ sim_file;
                s2 = logging_error error_message s1
            in (Inr (simulation_name @ '': File not found''), s2))
         else
           (let command = [CONTAM_EXE os, sim_file];
                s2 = logging_debug (''Executing command: '' @ str_join '' '' command) s1
            in case time_time os s2 of (start_time, s3) \<Rightarrow>
               (case subprocess_run os command s3 of
                  (Inl e, s4) \<Rightarrow>
                    (let s5 = logging_exception
                                (''Exception occurred while running simulation ''
                                 @ simulation_name @ '': '' @ str_exc e) s4
                     in (Inr (simulation_name @ '': Exception occurred''), s5))
                | (Inr result, s4) \<Rightarrow>
                    (case time_time os s4 of (end_time, s5) \<Rightarrow>
                     (let elapsed_time = env_fsub os end_time start_time;
                          s6 = logging_info (''Finished simulation for '' @ simulation_name
                                 @ '' in '' @ env_fmt2 os elapsed_time @ '' seconds'') s5;
                          details = log_details os command elapsed_time result;
                          path = output_log_file simulation_name;
                          s8 = (case open_write os path details s6 of
                                  (None, s7) \<Rightarrow>
                                    logging_debug (''Log details for '' @ simulation_name
                                      @ '' written to '' @ path) s7
                                | (Some e, s7) \<Rightarrow>
                                    logging_error (''Error writing log file for ''
                                      @ simulation_name @ '': '' @ str_exc e) s7)
                      in (Inr (simulation_name @ '': Completed in '' @ env_fmt2 os elapsed_time
                                @ '' seconds, Return Code: '' @ str_int (returncode result)),
                          s8))))))"

subsection \<open>The process pool\<close>

text \<open>
  \<open>ProcessPoolExecutor(max_workers=n)\<close> and \<open>list(executor.map(f, jobs))\<close> belong to
  Python's standard library; the model follows their documented behaviour. Every job is
  submitted, in the order of the list, as a call with its index. At most \<open>max_workers\<close>
  calls are in a worker at a time, the first \<open>max_workers\<close> of those pending; which of them
  completes next is not determined, and is read from the list \<open>cs\<close> of choices (the first
  one when the list is exhausted). A call takes effect on the state when it completes. The
  completed calls are kept with their index, in the order of completion.
\<close>

function pool_run ::
  "nat \<Rightarrow> ('a \<Rightarrow> 's \<Rightarrow> 'r \<times> 's) \<Rightarrow> (nat \<times> 'a) list \<Rightarrow> nat list \<Rightarrow> (nat \<times> 'r) list \<Rightarrow> 's
   \<Rightarrow> (nat \<times> 'r) list \<times> 's"
where
  "pool_run max_workers f pending cs completed s =
     (if max_workers = 0 \<or> pending = [] then (completed, s)
      else
        (let k = (case cs of [] \<Rightarrow> 0 | c # _ \<Rightarrow> c mod min max_workers (length pending))
         in case pending ! k of (i, job) \<Rightarrow>
            (case f job s of (r, s') \<Rightarrow>
               pool_run max_workers f (take k pending @ drop (Suc k) pending) (tl cs)
                 (completed @ [(i, r)]) s')))"
  by pat_completeness auto
termination
proof (relation "measure (\<lambda>(max_workers, f, pending, cs, completed, s). length pending)")
  show "wf (measure (\<lambda>(max_workers, f, pending, cs, completed, s). length pending))"
    by simp
next
  fix max_workers :: nat and f :: "'a \<Rightarrow> 's \<Rightarrow> 'r \<times> 's" and pending :: "(nat \<times> 'a) list"
    and cs :: "nat list" and completed :: "(nat \<times> 'r) list" and s :: 's and k x y
    and xa :: "'r \<times> 's" and xb yb
  assume live: "\<not> (max_workers = 0 \<or> pending = [])"
    and k: "k = (case cs of [] \<Rightarrow> 0 | c # _ \<Rightarrow> c mod min max_workers (length pending))"
  from live have "0 < min max_workers (length pending)" by simp
  then have "k < length pending"
    unfolding k by (cases cs) (simp_all add: less_le_trans [OF mod_less_divisor])
  then show "((max_workers, f, take k pending @ drop (Suc k) pending, tl cs,
                completed @ [(x, xb)], yb),
              (max_workers, f, pending, cs, completed, s))
             \<in> measure (\<lambda>(max_workers, f, pending, cs, completed, s). length pending)"
    by simp
qed

declare pool_run.simps [simp del]

text \<open>
  \<open>list(...)\<close> over the results: the result of each call in turn, and the first exception
  met is raised.
\<close>

fun result_list :: "(py_exception + 'r) list \<Rightarrow> py_exception + 'r list" where
  "result_list [] = Inr []"
| "result_list (Inl e # rs) = Inl e"
| "result_list (Inr x # rs) =
     (case result_list rs of Inl e \<Rightarrow> Inl e | Inr xs \<Rightarrow> Inr (x # xs))"

text \<open>
  \<open>with ProcessPoolExecutor(max_workers=n) as executor: list(executor.map(f, jobs))\<close>. The
  constructor raises \<open>ValueError\<close> unless \<open>max_workers\<close> is positive. The results are
  taken in the order of submission, that is by index, not in the order of completion.
\<close>

definition process_pool_map ::
  "int \<Rightarrow> ('a \<Rightarrow> 's \<Rightarrow> (py_exception + 'r) \<times> 's) \<Rightarrow> 'a list \<Rightarrow> nat list \<Rightarrow> 's
   \<Rightarrow> (py_exception + 'r list) \<times> 's"
where
  "process_pool_map max_workers f jobs cs s =
     (if max_workers \<le> 0 then (Inl (ValueError ''max_workers must be greater than 0''), s)
      else
        (case pool_run (nat max_workers) f (enumerate 0 jobs) cs [] s of
           (completed, s') \<Rightarrow> (result_list (map snd (sort_key fst completed)), s')))"

subsection \<open>main and the script\<close>

definition main ::
  "('w, 'f) os_env \<Rightarrow> nat list \<Rightarrow> 'w state \<Rightarrow> (py_exception + unit) \<times> 'w state"
where
  "main os cs s0 =
     (case (if \<not> os_path_exists os ''output'' s0 then
              (case os_makedirs os ''output'' s0 of
                 (Some e, s1) \<Rightarrow> (Inl e, s1)
               | (None, s1) \<Rightarrow> (Inr (), logging_debug ''Created 'output' directory.'' s1))
            else (Inr (), s0)) of
        (Inl e, s1) \<Rightarrow> (Inl e, s1)
      | (Inr _, s1) \<Rightarrow>
          (let s2 = logging_info ''Starting all simulations in parallel.'' s1
           in case process_pool_map 3 (run_contam os) SIMULATION_FILES cs s2 of
                (Inl e, s3) \<Rightarrow> (Inl e, s3)
              | (Inr results, s3) \<Rightarrow>
                  (let s4 = logging_info ''All simulations completed. Summary:'' s3;
                       s5 = fold logging_info results s4
                   in (Inr (), s5))))"

text \<open>
  How the interpreter ends: it runs off the end of the script (exit code 0), \<open>sys.exit(n)\<close>
  is called (exit code \<open>n\<close>), or an exception is not caught (traceback, exit code 1).
\<close>

datatype outcome = Finished | SysExit int | Uncaught py_exception

fun exit_code :: "outcome \<Rightarrow> int" where
  "exit_code Finished = 0"
| "exit_code (SysExit n) = n"
| "exit_code (Uncaught e) = 1"

text \<open>
  The module level of the script from line 23 on: the check of \<open>CONTAM_EXE\<close>, then, under
  \<open>if __name__ == '__main__'\<close>, \<open>main()\<close>.
\<close>

definition script :: "('w, 'f) os_env \<Rightarrow> nat list \<Rightarrow> 'w state \<Rightarrow> outcome \<times> 'w state" where
  "script os cs s0 =
     (if \<not> os_path_exists os (CONTAM_EXE os) s0 then
        (SysExit 1, logging_error (''Contam executable not found: '' @ CONTAM_EXE os) s0)
      else
        (case main os cs s0 of
           (Inl e, s1) \<Rightarrow> (Uncaught e, s1)
         | (Inr _, s1) \<Rightarrow> (Finished, s1)))"

subsection \<open>Vocabulary of the theorems\<close>

text \<open>The events that a run has added to the trace.\<close>

definition events_since :: "'w state \<Rightarrow> 'w state \<Rightarrow> event list" where
  "events_since s s' = drop (length (trace s)) (trace s')"

text \<open>
  The record that \<open>run_contam\<close> logs first, once per call, and the test that recognises
  such a record in a trace.
\<close>

definition start_record :: "string \<Rightarrow> event" where
  "start_record sim_file = Log INFO (''Starting simulation for '' @ os_path_basename sim_file)"

definition is_start_record :: "event \<Rightarrow> bool" where
  "is_start_record ev =
     (case ev of Log lv msg \<Rightarrow> lv = INFO \<and> prefix ''Starting simulation for '' msg
      | _ \<Rightarrow> False)"

text \<open>The paths of the files that a trace writes, in order.\<close>

fun written_paths :: "event list \<Rightarrow> string list" where
  "written_paths [] = []"
| "written_paths (FileWrite path content # evs) = path # written_paths evs"
| "written_paths (ev # evs) = written_paths evs"

text \<open>
  Following the specification's words, not the source: the artifact's name is "the name
  without its extension plus .log", the extension being what follows the last dot.
\<close>

definition spec_artifact_name :: "string \<Rightarrow> string" where
  "spec_artifact_name job_name =
     (if CHR ''.'' \<in> set job_name
      then rev (tl (dropWhile (\<lambda>c. c \<noteq> CHR ''.'') (rev job_name)))
      else job_name) @ ''.log''"

text \<open>
  What holds of the pool while it runs the jobs: the indices of the completed and of the
  pending calls are together those of the job list; a pending call carries the job of its
  index; a completed call carries what \<open>run_contam\<close> returned for the job of its index;
  and the start records added to the trace are those of the completed calls, in the order of
  completion.
\<close>

definition pool_inv ::
  "('w, 'f) os_env \<Rightarrow> string list \<Rightarrow> 'w state
   \<Rightarrow> (nat \<times> string) list \<Rightarrow> (nat \<times> (py_exception + string)) list \<Rightarrow> 'w state \<Rightarrow> bool"
where
  "pool_inv os jobs s0 pending completed s \<longleftrightarrow>
     mset (map fst completed) + mset (map fst pending) = mset [0..<length jobs]
     \<and> (\<forall>(i, job) \<in> set pending. i < length jobs \<and> job = jobs ! i)
     \<and> (\<forall>(i, r) \<in> set completed.
           i < length jobs \<and> (\<exists>si. r = fst (run_contam os (jobs ! i) si)))
     \<and> (\<exists>new. trace s = trace s0 @ new
           \<and> filter is_start_record new
               = map (\<lambda>i. start_record (jobs ! i)) (map fst completed))"

subsection \<open>Concrete operating systems\<close>

text \<open>
  A small operating system to evaluate the script on: the world is a counter that the clock
  advances, a path exists as \<open>present\<close> says, every launch has the outcome \<open>launch\<close> and
  every write the outcome \<open>written\<close>.
\<close>

definition demo_os ::
  "(string \<Rightarrow> bool) \<Rightarrow> (py_exception + completed_process) \<Rightarrow> py_exception option
   \<Rightarrow> (nat, nat) os_env"
where
  "demo_os present launch written =
     \<lparr>env_script_dir = ''/opt/contam'',
      env_exists = (\<lambda>p w. present p),
      env_access_x = (\<lambda>p w. present p),
      env_getcwd = (\<lambda>w. Inr ''/work''),
      env_makedirs = (\<lambda>p w. (None, w)),
      env_time = (\<lambda>w. (w, Suc w)),
      env_fsub = (\<lambda>a b. a - b),
      env_fmt2 = (\<lambda>t. str_nat t @ ''.00''),
      env_run = (\<lambda>command cwd w. (launch, w)),
      env_write = (\<lambda>path content w. (written, w))\<rparr>"

definition missing_os :: "(nat, nat) os_env" where
  "missing_os = demo_os (\<lambda>p. False) (Inl (OSError ''unused'')) None"

definition ok_os :: "(nat, nat) os_env" where
  "ok_os = demo_os (\<lambda>p. True) (Inr \<lparr>returncode = 0, stdout = ''OK'', stderr = []\<rparr>) None"

definition exit2_os :: "(nat, nat) os_env" where
  "exit2_os = demo_os (\<lambda>p. True) (Inr \<lparr>returncode = 2, stdout = [], stderr = ''bad input''\<rparr>) None"

definition raising_os :: "(nat, nat) os_env" where
  "raising_os = demo_os (\<lambda>p. True) (Inl (OSError ''boom'')) None"

definition unwritable_os :: "(nat, nat) os_env" where
  "unwritable_os =
     demo_os (\<lambda>p. True) (Inr \<lparr>returncode = 0, stdout = ''OK'', stderr = []\<rparr>)
       (Some (PermissionError ''denied''))"

text \<open>The executable exists and is not executable: every launch raises \<open>PermissionError\<close>.\<close>

definition nonexec_os :: "(nat, nat) os_env" where
  "nonexec_os =
     (demo_os (\<lambda>p. True) (Inl (PermissionError ''Permission denied'')) None)
       \<lparr>env_access_x := (\<lambda>p w. False)\<rparr>"

definition fresh :: "nat state" where
  "fresh = \<lparr>world = 0, trace = []\<rparr>"

text \<open>
  An operating system with a disk: the world is the clock and the files written so far, the
  last one first. Every path exists, every launch prints \<open>OK\<close> and returns 0, every write
  succeeds and puts the file on the disk.
\<close>

definition fs_os :: "(nat \<times> (string \<times> string) list, nat) os_env" where
  "fs_os =
     \<lparr>env_script_dir = ''/opt/contam'',
      env_exists = (\<lambda>p w. True),
      env_access_x = (\<lambda>p w. True),
      env_getcwd = (\<lambda>w. Inr ''/work''),
      env_makedirs = (\<lambda>p w. (None, w)),
      env_time = (\<lambda>w. (fst w, (Suc (fst w), snd w))),
      env_fsub = (\<lambda>a b. a - b),
      env_fmt2 = (\<lambda>t. str_nat t @ ''.00''),
      env_run = (\<lambda>command cwd w. (Inr \<lparr>returncode = 0, stdout = ''OK'', stderr = []\<rparr>, w)),
      env_write = (\<lambda>path content w. (None, (fst w, (path, content) # snd w)))\<rparr>"

definition empty_disk :: "(nat \<times> (string \<times> string) list) state" where
  "empty_disk = \<lparr>world = (0, []), trace = []\<rparr>"

text \<open>The log file of \<open>simulations/sim1.prj\<close> on that operating system.\<close>

definition sim1_log :: string where
  "sim1_log =
     ''Command: /opt/contam/contamx3.exe simulations/sim1.prj'' @ [CHR 0x0A]
     @ ''Elapsed Time: 1.00 seconds'' @ [CHR 0x0A]
     @ ''Return Code: 0'' @ [CHR 0x0A]
     @ ''STDOUT:'' @ [CHR 0x0A] @ ''OK'' @ [CHR 0x0A]
     @ ''STDERR:'' @ [CHR 0x0A] @ [CHR 0x0A]"

section \<open>Properties\<close>

subsection \<open>Auxiliary facts\<close>

lemmas run_contam_unfold =
  run_contam_def Let_def os_path_exists_def logging_info_def logging_debug_def
  logging_error_def logging_exception_def time_time_def subprocess_run_def open_write_def

lemmas demo_unfold =
  demo_os_def missing_os_def ok_os_def exit2_os_def raising_os_def unwritable_os_def
  nonexec_os_def fresh_def

lemma run_contam_returns: "\<exists>summary. fst (run_contam os sim_file s) = Inr summary"
  by (simp add: run_contam_unfold split: prod.splits sum.splits option.splits)

lemma run_contam_trace:
  "\<exists>new. trace (snd (run_contam os sim_file s)) = trace s @ new
         \<and> filter is_start_record new = [start_record sim_file]"
  by (simp add: run_contam_unfold is_start_record_def start_record_def
           split: prod.splits sum.splits option.splits)

lemma written_paths_append [simp]:
  "written_paths (xs @ ys) = written_paths xs @ written_paths ys"
  by (induction xs rule: written_paths.induct) simp_all

lemma basename_no_sep: "CHR ''/'' \<notin> set (os_path_basename p)"
  unfolding os_path_basename_def
  by (metis (mono_tags, lifting) set_rev set_takeWhileD)

text \<open>
  An invariant of the pool: what holds initially and is kept by the completion of any
  pending call holds when no call is pending.
\<close>

lemma pool_run_invariant:
  assumes mw: "0 < max_workers"
    and init: "I pending completed s"
    and step: "\<And>pending completed s k i job r s'.
                 I pending completed s \<Longrightarrow> k < length pending \<Longrightarrow> pending ! k = (i, job)
                 \<Longrightarrow> f job s = (r, s')
                 \<Longrightarrow> I (take k pending @ drop (Suc k) pending) (completed @ [(i, r)]) s'"
  shows "I [] (fst (pool_run max_workers f pending cs completed s))
              (snd (pool_run max_workers f pending cs completed s))"
  using assms
proof (induction max_workers f pending cs completed s rule: pool_run.induct)
  case (1 max_workers f pending cs completed s)
  note mw = "1.prems"(1) and init = "1.prems"(2) and step = "1.prems"(3)
  show ?case
  proof (cases "pending = []")
    case True
    with init show ?thesis by (simp add: pool_run.simps)
  next
    case False
    define k where "k = (case cs of [] \<Rightarrow> 0 | c # _ \<Rightarrow> c mod min max_workers (length pending))"
    from False mw have pos: "0 < min max_workers (length pending)" by simp
    have klt: "k < length pending"
      unfolding k_def using pos
      by (cases cs) (simp_all add: less_le_trans [OF mod_less_divisor])
    obtain i job where ij: "pending ! k = (i, job)" by (cases "pending ! k")
    obtain r s' where rs: "f job s = (r, s')" by (cases "f job s")
    have live: "\<not> (max_workers = 0 \<or> pending = [])" using False mw by simp
    have I': "I (take k pending @ drop (Suc k) pending) (completed @ [(i, r)]) s'"
      using step [OF init klt ij rs] .
    have unfold: "pool_run max_workers f pending cs completed s =
                  pool_run max_workers f (take k pending @ drop (Suc k) pending) (tl cs)
                    (completed @ [(i, r)]) s'"
      using live ij rs
      by (subst pool_run.simps) (simp add: k_def [symmetric] Let_def)
    show ?thesis
      unfolding unfold
      using "1.IH" [OF live k_def ij [symmetric] rs [symmetric] mw I' step] .
  qed
qed

lemma pool_inv_init: "pool_inv os jobs s0 (enumerate 0 jobs) [] s0"
  by (auto simp: pool_inv_def in_set_enumerate_eq)

lemma pool_inv_step:
  assumes inv: "pool_inv os jobs s0 pending completed s"
    and k: "k < length pending"
    and ij: "pending ! k = (i, job)"
    and run: "run_contam os job s = (r, s')"
  shows "pool_inv os jobs s0 (take k pending @ drop (Suc k) pending) (completed @ [(i, r)]) s'"
proof -
  let ?rest = "take k pending @ drop (Suc k) pending"
  have split: "pending = take k pending @ (i, job) # drop (Suc k) pending"
    using id_take_nth_drop [OF k] ij by simp
  have "mset pending = mset ?rest + {#(i, job)#}"
    by (subst split) simp
  then have m: "mset (map fst pending) = mset (map fst ?rest) + {#i#}"
    by (metis (no_types, lifting) fst_conv image_mset_add_mset image_mset_union
        mset_map add_mset_add_single image_mset_single)
  have mem: "(i, job) \<in> set pending"
    using k ij by (metis nth_mem)
  with inv have job: "i < length jobs" "job = jobs ! i"
    by (auto simp: pool_inv_def)
  have sub: "set ?rest \<subseteq> set pending"
    by (metis set_append Un_least set_take_subset set_drop_subset)
  from inv obtain new where new: "trace s = trace s0 @ new"
    "filter is_start_record new = map (\<lambda>i. start_record (jobs ! i)) (map fst completed)"
    by (auto simp: pool_inv_def)
  from run_contam_trace [of os job s] run obtain new' where new':
    "trace s' = trace s @ new'" "filter is_start_record new' = [start_record job]"
    by auto
  have r: "r = fst (run_contam os (jobs ! i) s)"
    using run job by simp
  show ?thesis
    unfolding pool_inv_def
  proof (intro conjI)
    show "mset (map fst (completed @ [(i, r)])) + mset (map fst ?rest) = mset [0..<length jobs]"
      using inv m by (simp add: pool_inv_def)
    show "\<forall>(i, job) \<in> set ?rest. i < length jobs \<and> job = jobs ! i"
      using inv sub by (auto simp: pool_inv_def)
    show "\<forall>(i, r) \<in> set (completed @ [(i, r)]).
            i < length jobs \<and> (\<exists>si. r = fst (run_contam os (jobs ! i) si))"
      using inv job r by (auto simp: pool_inv_def)
    show "\<exists>new. trace s' = trace s0 @ new
            \<and> filter is_start_record new
                = map (\<lambda>i. start_record (jobs ! i)) (map fst (completed @ [(i, r)]))"
      using new new' job by (intro exI [of _ "new @ new'"]) simp
  qed
qed

lemma pool_run_contam:
  assumes "0 < max_workers"
  shows "pool_inv os jobs s [] (fst (pool_run max_workers (run_contam os) (enumerate 0 jobs) cs [] s))
           (snd (pool_run max_workers (run_contam os) (enumerate 0 jobs) cs [] s))"
  by (rule pool_run_invariant [OF assms pool_inv_init pool_inv_step])

lemma result_list_Inr:
  assumes "\<And>r. r \<in> set rs \<Longrightarrow> \<exists>x. r = Inr x"
  shows "\<exists>xs. result_list rs = Inr xs \<and> map Inr xs = rs"
  using assms
proof (induction rs)
  case Nil
  then show ?case by simp
next
  case (Cons r rs)
  then obtain x where x: "r = Inr x" by auto
  from Cons obtain xs where "result_list rs = Inr xs" "map Inr xs = rs" by auto
  with x show ?case by simp
qed

lemma sorted_indices:
  assumes "mset (map fst completed) = mset [0..<n]"
  shows "map fst (sort_key fst completed) = [0..<n]"
proof -
  have "sort [0..<n] = map fst (sort_key fst completed)"
  proof (rule properties_for_sort)
    show "mset (map fst (sort_key fst completed)) = mset [0..<n]"
      using assms by simp
    show "sorted (map fst (sort_key fst completed))"
      by simp
  qed
  then show ?thesis by simp
qed

lemma pool_map_contam:
  assumes "0 < max_workers"
  shows "\<exists>rs. fst (process_pool_map max_workers (run_contam os) jobs cs s) = Inr rs
           \<and> length rs = length jobs
           \<and> (\<forall>i<length jobs. \<exists>si. fst (run_contam os (jobs ! i) si) = Inr (rs ! i))
           \<and> mset (filter is_start_record
                     (events_since s (snd (process_pool_map max_workers (run_contam os) jobs cs s))))
               = mset (map start_record jobs)"
proof -
  let ?n = "length jobs"
  obtain completed s' where run:
    "pool_run (nat max_workers) (run_contam os) (enumerate 0 jobs) cs [] s = (completed, s')"
    by (cases "pool_run (nat max_workers) (run_contam os) (enumerate 0 jobs) cs [] s")
  from assms have "0 < nat max_workers" by simp
  from pool_run_contam [OF this, of os jobs s cs] run
  have inv: "pool_inv os jobs s [] completed s'" by simp
  let ?sorted = "sort_key fst completed"
  have m: "mset (map fst completed) = mset [0..<?n]"
    using inv by (simp add: pool_inv_def)
  have idx: "map fst ?sorted = [0..<?n]"
    using m by (rule sorted_indices)
  then have len: "length ?sorted = ?n"
    by (metis length_map length_upt minus_nat.diff_0)
  have res: "\<exists>si. snd (?sorted ! i) = fst (run_contam os (jobs ! i) si)" if "i < ?n" for i
  proof -
    obtain j r where jr: "?sorted ! i = (j, r)" by (cases "?sorted ! i")
    have "?sorted ! i \<in> set completed"
      using that len by (metis nth_mem set_sort)
    then have mem: "(j, r) \<in> set completed" by (simp add: jr)
    have "fst (?sorted ! i) = i"
      using that len idx by (metis nth_map nth_upt add_0)
    then have "j = i" by (simp add: jr)
    moreover from inv have "\<forall>(i, r) \<in> set completed.
        i < length jobs \<and> (\<exists>si. r = fst (run_contam os (jobs ! i) si))"
      by (simp add: pool_inv_def)
    ultimately show ?thesis
      using mem jr by auto
  qed
  have "\<exists>x. r = Inr x" if "r \<in> set (map snd ?sorted)" for r
  proof -
    from that obtain i where i: "i < length (map snd ?sorted)" "map snd ?sorted ! i = r"
      unfolding in_set_conv_nth by blast
    from i(1) have "i < ?n" using len by (simp del: length_sort)
    moreover from i have "r = snd (?sorted ! i)" by (simp del: length_sort)
    ultimately show ?thesis
      using res [of i] run_contam_returns by metis
  qed
  from result_list_Inr [OF this] obtain rs where rs:
    "result_list (map snd ?sorted) = Inr rs" "map Inr rs = map snd ?sorted"
    by blast
  have lrs: "length rs = ?n"
    using rs(2) len by (metis length_map)
  have nth: "\<exists>si. fst (run_contam os (jobs ! i) si) = Inr (rs ! i)" if "i < ?n" for i
  proof -
    have "Inr (rs ! i) = map snd ?sorted ! i"
      using that lrs rs(2) by (metis nth_map)
    also have "\<dots> = snd (?sorted ! i)"
      using that len by simp
    finally show ?thesis using res [OF that] by metis
  qed
  from inv obtain new where new: "trace s' = trace s @ new"
    "filter is_start_record new = map (\<lambda>i. start_record (jobs ! i)) (map fst completed)"
    by (auto simp: pool_inv_def)
  have "mset (filter is_start_record new)
          = image_mset (\<lambda>i. start_record (jobs ! i)) (mset (map fst completed))"
    unfolding new(2) by (rule mset_map)
  also have "\<dots> = mset (map (\<lambda>i. start_record (jobs ! i)) [0..<?n])"
    unfolding m by (rule mset_map [symmetric])
  also have "map (\<lambda>i. start_record (jobs ! i)) [0..<?n] = map start_record jobs"
    by (rule nth_equalityI) simp_all
  finally have starts: "mset (filter is_start_record new) = mset (map start_record jobs)" .
  have pm: "process_pool_map max_workers (run_contam os) jobs cs s = (Inr rs, s')"
    using assms run rs(1) by (simp add: process_pool_map_def)
  show ?thesis
    unfolding pm using lrs nth starts new(1)
    by (intro exI [of _ rs]) (simp add: events_since_def)
qed

lemma run_contam_raising:
  assumes "\<forall>w. env_exists os sim_file w"
    and "\<forall>cwd w. \<exists>e. fst (env_run os [CONTAM_EXE os, sim_file] cwd w) = Inl e"
  shows "fst (run_contam os sim_file s) = Inr (os_path_basename sim_file @ '': Exception occurred'')
         \<and> (\<exists>e. last (trace (snd (run_contam os sim_file s)))
                 = Log ERROR (''Exception occurred while running simulation ''
                     @ os_path_basename sim_file @ '': '' @ str_exc e))"
proof -
  obtain t0 w1 where t: "env_time os (world s) = (t0, w1)"
    by (cases "env_time os (world s)")
  show ?thesis
  proof (cases "env_getcwd os w1")
    case (Inl e)
    with assms(1) t show ?thesis
      by (auto simp add: run_contam_unfold)
  next
    case (Inr cwd)
    from assms(2) obtain e where "fst (env_run os [CONTAM_EXE os, sim_file] cwd w1) = Inl e"
      by blast
    then obtain w2 where "env_run os [CONTAM_EXE os, sim_file] cwd w1 = (Inl e, w2)"
      by (cases "env_run os [CONTAM_EXE os, sim_file] cwd w1") simp
    with assms(1) t Inr show ?thesis
      by (auto simp add: run_contam_unfold)
  qed
qed

lemma main_returns:
  assumes "env_exists os ''output'' (world s) \<or> fst (env_makedirs os ''output'' (world s)) = None"
  shows "\<exists>u. fst (main os cs s) = Inr u"
proof -
  have pool: "\<exists>rs. fst (process_pool_map 3 (run_contam os) SIMULATION_FILES cs s') = Inr rs"
    for s' :: "'a state"
    using pool_map_contam [of 3 os SIMULATION_FILES cs s'] by auto
  show ?thesis
  proof (cases "env_exists os ''output'' (world s)")
    case True
    obtain rs s3 where
      "process_pool_map 3 (run_contam os) SIMULATION_FILES cs
         (logging_info ''Starting all simulations in parallel.'' s) = (Inr rs, s3)"
      using pool [of "logging_info ''Starting all simulations in parallel.'' s"]
      by (metis prod.collapse)
    with True show ?thesis
      by (simp add: main_def os_path_exists_def Let_def)
  next
    case False
    with assms obtain w1 where mk: "env_makedirs os ''output'' (world s) = (None, w1)"
      by (cases "env_makedirs os ''output'' (world s)") auto
    let ?s1 = "logging_debug ''Created 'output' directory.''
                 (s\<lparr>world := w1, trace := trace s @ [MakeDirs ''output'']\<rparr>)"
    obtain rs s3 where
      "process_pool_map 3 (run_contam os) SIMULATION_FILES cs
         (logging_info ''Starting all simulations in parallel.'' ?s1) = (Inr rs, s3)"
      using pool [of "logging_info ''Starting all simulations in parallel.'' ?s1"]
      by (metis prod.collapse)
    with False mk show ?thesis
      by (simp add: main_def os_path_exists_def os_makedirs_def Let_def)
  qed
qed

lemma script_missing_exe:
  assumes "\<not> env_exists os (CONTAM_EXE os) (world s)"
  shows "script os cs s =
           (SysExit 1,
            s\<lparr>trace := trace s @ [Log ERROR (''Contam executable not found: '' @ CONTAM_EXE os)]\<rparr>)"
  using assms by (simp add: script_def os_path_exists_def logging_error_def)

lemma script_finishes:
  assumes "env_exists os (CONTAM_EXE os) (world s)"
    and "env_exists os ''output'' (world s) \<or> fst (env_makedirs os ''output'' (world s)) = None"
  shows "fst (script os cs s) = Finished"
proof -
  from main_returns [OF assms(2), of cs] obtain u where "fst (main os cs s) = Inr u" by blast
  then obtain s1 where "main os cs s = (Inr u, s1)" by (metis prod.collapse)
  with assms(1) show ?thesis by (simp add: script_def os_path_exists_def)
qed

lemma fold_logging_info_trace: "trace (fold logging_info rs s) = trace s @ map (Log INFO) rs"
  by (induction rs arbitrary: s) (simp_all add: logging_info_def)

lemma main_dispatches:
  assumes out: "env_exists os ''output'' (world s)
                \<or> fst (env_makedirs os ''output'' (world s)) = None"
    and j: "j \<in> set SIMULATION_FILES"
  shows "start_record j \<in> set (events_since s (snd (main os cs s)))"
proof -
  obtain s1 where s1:
    "(if \<not> os_path_exists os ''output'' s then
        (case os_makedirs os ''output'' s of
           (Some e, s1) \<Rightarrow> (Inl e, s1)
         | (None, s1) \<Rightarrow> (Inr (), logging_debug ''Created 'output' directory.'' s1))
      else (Inr (), s)) = (Inr (), s1)"
    and len1: "length (trace s) \<le> length (trace s1)"
  proof (cases "env_exists os ''output'' (world s)")
    case True
    then show ?thesis
      by (intro that [of s]) (simp_all add: os_path_exists_def)
  next
    case False
    with out obtain w1 where mk: "env_makedirs os ''output'' (world s) = (None, w1)"
      by (cases "env_makedirs os ''output'' (world s)") auto
    with False show ?thesis
      by (intro that [of "logging_debug ''Created 'output' directory.''
                            (s\<lparr>world := w1, trace := trace s @ [MakeDirs ''output'']\<rparr>)"])
         (simp_all add: os_path_exists_def os_makedirs_def logging_debug_def)
  qed
  let ?s2 = "logging_info ''Starting all simulations in parallel.'' s1"
  have len2: "length (trace s) \<le> length (trace ?s2)"
    using len1 by (simp add: logging_info_def)
  from pool_map_contam [of 3 os SIMULATION_FILES cs ?s2] obtain rs where rs:
    "fst (process_pool_map 3 (run_contam os) SIMULATION_FILES cs ?s2) = Inr rs"
    "mset (filter is_start_record
             (events_since ?s2 (snd (process_pool_map 3 (run_contam os) SIMULATION_FILES cs ?s2))))
       = mset (map start_record SIMULATION_FILES)"
    by auto
  obtain s3 where s3: "process_pool_map 3 (run_contam os) SIMULATION_FILES cs ?s2 = (Inr rs, s3)"
    using rs(1) by (metis prod.collapse)
  from j have "start_record j \<in># mset (map start_record SIMULATION_FILES)"
    by simp
  with rs(2) s3 have "start_record j \<in> set (filter is_start_record (events_since ?s2 s3))"
    by (metis set_mset_mset snd_conv)
  then have "start_record j \<in> set (drop (length (trace ?s2)) (trace s3))"
    by (simp add: events_since_def)
  then have "start_record j \<in> set (drop (length (trace s)) (trace s3))"
    using set_drop_subset_set_drop [OF len2, of "trace s3"] by blast
  moreover have "trace (snd (main os cs s))
      = trace s3 @ Log INFO ''All simulations completed. Summary:'' # map (Log INFO) rs"
    using s1 s3 unfolding main_def
    by (simp add: Let_def fold_logging_info_trace logging_info_def)
  ultimately show ?thesis
    by (auto simp add: events_since_def)
qed

lemma script_dispatches:
  assumes "env_exists os (CONTAM_EXE os) (world s)"
    and "env_exists os ''output'' (world s)
         \<or> fst (env_makedirs os ''output'' (world s)) = None"
    and "j \<in> set SIMULATION_FILES"
  shows "start_record j \<in> set (events_since s (snd (script os cs s)))"
proof -
  have "snd (script os cs s) = snd (main os cs s)"
    using assms(1) by (simp add: script_def os_path_exists_def split: prod.splits sum.splits)
  with main_dispatches [OF assms(2,3), of cs] show ?thesis by simp
qed

lemma run_contam_access_x: "run_contam (os\<lparr>env_access_x := ax\<rparr>) = run_contam os"
  by (intro ext)
     (simp add: run_contam_unfold CONTAM_EXE_def log_details_def
           split: prod.splits sum.splits option.splits)

lemma script_access_x: "script (os\<lparr>env_access_x := ax\<rparr>) cs s = script os cs s"
  unfolding script_def main_def run_contam_access_x os_path_exists_def os_makedirs_def
    CONTAM_EXE_def
  by simp

text \<open>Replacing \<open>.prj\<close> in a name that has it only as its extension.\<close>

lemma prj_not_prefix:
  assumes "\<not> prefix ''.prj'' (c # cs)"
  shows "\<not> prefix ''.prj'' (c # cs @ ''.prj'')"
proof (cases cs)
  case Nil
  then show ?thesis by simp
next
  case (Cons d ds)
  note c1 = this
  show ?thesis
  proof (cases ds)
    case Nil
    with c1 show ?thesis by simp
  next
    case (Cons e es)
    note c2 = this
    show ?thesis
    proof (cases es)
      case Nil
      with c1 c2 show ?thesis by simp
    next
      case (Cons f fs)
      with c1 c2 assms show ?thesis by simp
    qed
  qed
qed

lemma replace_prj_suffix:
  assumes "\<not> sublist ''.prj'' stem"
  shows "replace_scan ''.prj'' ''.log'' (stem @ ''.prj'') = stem @ ''.log''"
  using assms
proof (induction stem)
  case Nil
  then show ?case by simp
next
  case (Cons c cs)
  from Cons.prems have np: "\<not> prefix ''.prj'' (c # cs)" and ns: "\<not> sublist ''.prj'' cs"
    by (simp_all add: sublist_Cons_right)
  from prj_not_prefix [OF np] have np': "\<not> prefix ''.prj'' (c # cs @ ''.prj'')" .
  have "replace_scan ''.prj'' ''.log'' ((c # cs) @ ''.prj'')
               = c # replace_scan ''.prj'' ''.log'' (cs @ ''.prj'')"
    unfolding append_Cons by (subst replace_scan.simps) (simp only: np' if_False)
  with Cons.IH [OF ns] show ?case by simp
qed

lemma spec_artifact_name_prj: "spec_artifact_name (stem @ ''.prj'') = stem @ ''.log''"
  by (simp add: spec_artifact_name_def)

subsection \<open>The pool returns one result per job, in the order of the jobs\<close>

text \<open>
  Claim C1. For every job list and every positive number of workers, whatever the order in
  which the calls complete (every list of choices \<open>cs\<close>), \<open>list(executor.map(run_contam,
  jobs))\<close> returns normally with exactly one result per job; the result at index \<open>i\<close> is
  what \<open>run_contam\<close> returned for the job at index \<open>i\<close>; and the start records that the
  pool added to the trace are, as a multiset, those of the jobs: each job was run once, none
  twice, none skipped. \<open>main\<close> is the instance with three workers and
  \<open>SIMULATION_FILES\<close>.
\<close>

theorem pool_results_in_job_order:
  assumes "0 < max_workers"
  shows "\<exists>rs. fst (process_pool_map max_workers (run_contam os) jobs cs s) = Inr rs
           \<and> length rs = length jobs
           \<and> (\<forall>i<length jobs. \<exists>si. fst (run_contam os (jobs ! i) si) = Inr (rs ! i))
           \<and> mset (filter is_start_record
                     (events_since s (snd (process_pool_map max_workers (run_contam os) jobs cs s))))
               = mset (map start_record jobs)"
  using assms by (rule pool_map_contam)

theorem pool_results_in_job_order_witness:
  "(0::int) < 3 \<and> 0 < length SIMULATION_FILES
   \<and> (\<exists>rs. fst (process_pool_map 3 (run_contam raising_os) SIMULATION_FILES [2, 0] fresh)
              = Inr rs
           \<and> length rs = 3
           \<and> (\<exists>si. fst (run_contam raising_os (SIMULATION_FILES ! 0) si) = Inr (rs ! 0)))"
proof -
  have len: "length SIMULATION_FILES = 3"
    by (simp add: SIMULATION_FILES_def)
  from pool_results_in_job_order [of 3 raising_os SIMULATION_FILES "[2, 0]" fresh]
  obtain rs where rs:
    "fst (process_pool_map 3 (run_contam raising_os) SIMULATION_FILES [2, 0] fresh) = Inr rs"
    "length rs = length SIMULATION_FILES"
    "\<forall>i<length SIMULATION_FILES.
       \<exists>si. fst (run_contam raising_os (SIMULATION_FILES ! i) si) = Inr (rs ! i)"
    by auto
  from rs(3) len have "\<exists>si. fst (run_contam raising_os (SIMULATION_FILES ! 0) si) = Inr (rs ! 0)"
    by simp
  with rs(1,2) len show ?thesis by auto
qed

subsection \<open>A missing simulation file\<close>

text \<open>
  Claim C2. When the simulation file does not exist, \<open>run_contam\<close> returns the summary
  "name: File not found" and leaves the world as it was; what it adds to the trace is its
  start record and the error record, and nothing else: no clock is read, no process is
  launched, no file is written.
\<close>

theorem run_contam_file_not_found:
  assumes "\<not> env_exists os sim_file (world s)"
  shows "run_contam os sim_file s =
           (Inr (os_path_basename sim_file @ '': File not found''),
            s\<lparr>trace := trace s @
              [Log INFO (''Starting simulation for '' @ os_path_basename sim_file),
               Log ERROR (''Simulation file not found: '' @ sim_file)]\<rparr>)"
  using assms by (simp add: run_contam_unfold)

theorem run_contam_file_not_found_witness:
  "\<not> env_exists missing_os ''simulations/sim1.prj'' (world fresh)
   \<and> run_contam missing_os ''simulations/sim1.prj'' fresh
      = (Inr ''sim1.prj: File not found'',
         \<lparr>world = 0,
          trace = [Log INFO ''Starting simulation for sim1.prj'',
                   Log ERROR ''Simulation file not found: simulations/sim1.prj'']\<rparr>)"
  using run_contam_file_not_found [of missing_os "''simulations/sim1.prj''" fresh]
  by (simp add: demo_unfold os_path_basename_def)

subsection \<open>A non-zero return code\<close>

text \<open>
  Claim C3. When the file exists and the child process runs and exits with a non-zero return
  code, \<open>run_contam\<close> returns the summary "name: Completed in t seconds, Return Code: c"
  with that very code \<open>c\<close>; the summary is not that of the exception handler, and the
  record of the exception handler is not among the events of the run.
\<close>

theorem run_contam_exit_code:
  assumes "env_exists os sim_file (world s)"
    and "env_time os (world s) = (t0, w1)"
    and "env_getcwd os w1 = Inr cwd"
    and "env_run os [CONTAM_EXE os, sim_file] cwd w1 = (Inr result, w2)"
    and "env_time os w2 = (t1, w3)"
    and "returncode result \<noteq> 0"
  shows "fst (run_contam os sim_file s) =
           Inr (os_path_basename sim_file @ '': Completed in ''
                @ env_fmt2 os (env_fsub os t1 t0)
                @ '' seconds, Return Code: '' @ str_int (returncode result))
         \<and> fst (run_contam os sim_file s)
             \<noteq> Inr (os_path_basename sim_file @ '': Exception occurred'')
         \<and> (\<forall>e. Log ERROR (''Exception occurred while running simulation ''
                  @ os_path_basename sim_file @ '': '' @ str_exc e)
               \<notin> set (events_since s (snd (run_contam os sim_file s))))"
  using assms
  by (simp add: run_contam_unfold events_since_def split: prod.splits option.splits)

theorem run_contam_exit_code_witness:
  "env_exists exit2_os ''simulations/sim1.prj'' (world fresh)
   \<and> returncode \<lparr>returncode = 2, stdout = [], stderr = ''bad input''\<rparr> \<noteq> 0
   \<and> fst (run_contam exit2_os ''simulations/sim1.prj'' fresh)
       = Inr ''sim1.prj: Completed in 1.00 seconds, Return Code: 2''"
proof -
  let ?cp = "\<lparr>returncode = 2, stdout = [], stderr = ''bad input''\<rparr>"
  have h1: "env_exists exit2_os ''simulations/sim1.prj'' (world fresh)"
    by (simp add: demo_unfold)
  have h2: "env_time exit2_os (world fresh) = (0, Suc 0)"
    by (simp add: demo_unfold)
  have h3: "env_getcwd exit2_os (Suc 0) = Inr ''/work''"
    by (simp add: demo_unfold)
  have h4: "env_run exit2_os [CONTAM_EXE exit2_os, ''simulations/sim1.prj''] ''/work'' (Suc 0)
              = (Inr ?cp, Suc 0)"
    by (simp add: demo_unfold)
  have h5: "env_time exit2_os (Suc 0) = (Suc 0, Suc (Suc 0))"
    by (simp add: demo_unfold)
  have h6: "returncode ?cp \<noteq> 0"
    by simp
  from run_contam_exit_code [OF h1 h2 h3 h4 h5 h6]
  have "fst (run_contam exit2_os ''simulations/sim1.prj'' fresh)
          = Inr (os_path_basename ''simulations/sim1.prj'' @ '': Completed in ''
                 @ env_fmt2 exit2_os (env_fsub exit2_os (Suc 0) 0)
                 @ '' seconds, Return Code: '' @ str_int (returncode ?cp))"
    by blast
  then have "fst (run_contam exit2_os ''simulations/sim1.prj'' fresh)
          = Inr ''sim1.prj: Completed in 1.00 seconds, Return Code: 2''"
    by (simp add: demo_unfold os_path_basename_def str_int_def)
  with h1 h6 show ?thesis by blast
qed

subsection \<open>A launch that raises\<close>

text \<open>
  Claim C4. When the file exists and launching the process for it raises, \<open>run_contam\<close>
  returns normally, with the summary "name: Exception occurred"; what it adds to the trace
  ends with the launch and the error record of the handler, which carries the text of the
  exception: the clock is not read again and no log file is written. In the pool, when
  launching the process for this file raises in every world, then for every job list that
  holds the file, every number of workers and every order of completion, the pool returns
  one result per job and the result of this job is that summary: the exception reaches
  neither the pool nor the other jobs.
\<close>

theorem launch_exception_is_caught:
  assumes "env_exists os sim_file (world s)"
    and "env_time os (world s) = (t0, w1)"
    and "env_getcwd os w1 = Inr cwd"
    and "env_run os [CONTAM_EXE os, sim_file] cwd w1 = (Inl e, w2)"
  shows "run_contam os sim_file s =
           (Inr (os_path_basename sim_file @ '': Exception occurred''),
            s\<lparr>world := w2,
              trace := trace s @
                [Log INFO (''Starting simulation for '' @ os_path_basename sim_file),
                 Log DEBUG (''Executing command: '' @ CONTAM_EXE os @ '' '' @ sim_file),
                 ClockRead,
                 Subprocess [CONTAM_EXE os, sim_file] cwd,
                 Log ERROR (''Exception occurred while running simulation ''
                   @ os_path_basename sim_file @ '': '' @ str_exc e)]\<rparr>)
         \<and> ((\<forall>w. env_exists os sim_file w)
              \<and> (\<forall>cwd w. \<exists>e. fst (env_run os [CONTAM_EXE os, sim_file] cwd w) = Inl e)
            \<longrightarrow> (\<forall>max_workers jobs cs i s'.
                   0 < max_workers \<and> i < length jobs \<and> jobs ! i = sim_file
                   \<longrightarrow> (\<exists>rs. fst (process_pool_map max_workers (run_contam os) jobs cs s') = Inr rs
                          \<and> length rs = length jobs
                          \<and> rs ! i = os_path_basename sim_file @ '': Exception occurred'')))"
proof (intro conjI impI allI)
  show "run_contam os sim_file s =
           (Inr (os_path_basename sim_file @ '': Exception occurred''),
            s\<lparr>world := w2,
              trace := trace s @
                [Log INFO (''Starting simulation for '' @ os_path_basename sim_file),
                 Log DEBUG (''Executing command: '' @ CONTAM_EXE os @ '' '' @ sim_file),
                 ClockRead,
                 Subprocess [CONTAM_EXE os, sim_file] cwd,
                 Log ERROR (''Exception occurred while running simulation ''
                   @ os_path_basename sim_file @ '': '' @ str_exc e)]\<rparr>)"
    using assms by (simp add: run_contam_unfold)
next
  fix max_workers :: int and jobs cs i and s' :: "'a state"
  assume always: "(\<forall>w. env_exists os sim_file w)
              \<and> (\<forall>cwd w. \<exists>e. fst (env_run os [CONTAM_EXE os, sim_file] cwd w) = Inl e)"
    and job: "0 < max_workers \<and> i < length jobs \<and> jobs ! i = sim_file"
  from job have mw: "0 < max_workers" by simp
  from pool_map_contam [OF mw, of os jobs cs s'] obtain rs where rs:
    "fst (process_pool_map max_workers (run_contam os) jobs cs s') = Inr rs"
    "length rs = length jobs"
    "\<forall>i<length jobs. \<exists>si. fst (run_contam os (jobs ! i) si) = Inr (rs ! i)"
    by blast
  from rs(3) job obtain si where "fst (run_contam os sim_file si) = Inr (rs ! i)"
    by blast
  moreover from always have "fst (run_contam os sim_file si)
      = Inr (os_path_basename sim_file @ '': Exception occurred'')"
    using run_contam_raising [of os sim_file si] by blast
  ultimately have "rs ! i = os_path_basename sim_file @ '': Exception occurred''" by simp
  with rs(1,2)
  show "\<exists>rs. fst (process_pool_map max_workers (run_contam os) jobs cs s') = Inr rs
          \<and> length rs = length jobs
          \<and> rs ! i = os_path_basename sim_file @ '': Exception occurred''"
    by blast
qed

theorem launch_exception_is_caught_witness:
  "env_exists raising_os ''simulations/sim2.prj'' (world fresh)
   \<and> (\<forall>w. env_exists raising_os ''simulations/sim2.prj'' w)
   \<and> (\<forall>cwd w. \<exists>e. fst (env_run raising_os [CONTAM_EXE raising_os, ''simulations/sim2.prj'']
                          cwd w) = Inl e)
   \<and> (0::int) < 3 \<and> 1 < length SIMULATION_FILES
   \<and> SIMULATION_FILES ! 1 = ''simulations/sim2.prj''
   \<and> run_contam raising_os ''simulations/sim2.prj'' fresh
       = (Inr ''sim2.prj: Exception occurred'',
          \<lparr>world = 1,
           trace =
             [Log INFO ''Starting simulation for sim2.prj'',
              Log DEBUG ''Executing command: /opt/contam/contamx3.exe simulations/sim2.prj'',
              ClockRead,
              Subprocess [''/opt/contam/contamx3.exe'', ''simulations/sim2.prj''] ''/work'',
              Log ERROR ''Exception occurred while running simulation sim2.prj: boom'']\<rparr>)
   \<and> (\<exists>rs. fst (process_pool_map 3 (run_contam raising_os) SIMULATION_FILES [1] fresh) = Inr rs
          \<and> length rs = 3 \<and> rs ! 1 = ''sim2.prj: Exception occurred'')"
proof -
  let ?f = "''simulations/sim2.prj''"
  have h1: "env_exists raising_os ?f (world fresh)"
    by (simp add: demo_unfold)
  have h2: "env_time raising_os (world fresh) = (0, Suc 0)"
    by (simp add: demo_unfold)
  have h3: "env_getcwd raising_os (Suc 0) = Inr ''/work''"
    by (simp add: demo_unfold)
  have h4: "env_run raising_os [CONTAM_EXE raising_os, ?f] ''/work'' (Suc 0)
              = (Inl (OSError ''boom''), Suc 0)"
    by (simp add: demo_unfold)
  have a1: "\<forall>w. env_exists raising_os ?f w"
    by (simp add: demo_unfold)
  have a2: "\<forall>cwd w. \<exists>e. fst (env_run raising_os [CONTAM_EXE raising_os, ?f] cwd w) = Inl e"
    by (simp add: demo_unfold)
  have j: "1 < length SIMULATION_FILES" "SIMULATION_FILES ! 1 = ?f"
    "length SIMULATION_FILES = 3"
    by (simp_all add: SIMULATION_FILES_def os_path_join_def suffix_to_prefix)
  have b: "os_path_basename ?f = ''sim2.prj''"
    by (simp add: os_path_basename_def)
  have x: "CONTAM_EXE raising_os = ''/opt/contam/contamx3.exe''"
    by (simp add: demo_unfold CONTAM_EXE_def os_path_join_def suffix_to_prefix)
  note c = launch_exception_is_caught [OF h1 h2 h3 h4]
  from c have r: "run_contam raising_os ?f fresh
       = (Inr ''sim2.prj: Exception occurred'',
          \<lparr>world = 1,
           trace =
             [Log INFO ''Starting simulation for sim2.prj'',
              Log DEBUG ''Executing command: /opt/contam/contamx3.exe simulations/sim2.prj'',
              ClockRead,
              Subprocess [''/opt/contam/contamx3.exe'', ''simulations/sim2.prj''] ''/work'',
              Log ERROR ''Exception occurred while running simulation sim2.prj: boom'']\<rparr>)"
    by (simp add: fresh_def b x)
  from c a1 a2 have "\<forall>max_workers jobs cs i s'.
      0 < max_workers \<and> i < length jobs \<and> jobs ! i = ?f
      \<longrightarrow> (\<exists>rs. fst (process_pool_map max_workers (run_contam raising_os) jobs cs s') = Inr rs
             \<and> length rs = length jobs
             \<and> rs ! i = os_path_basename ?f @ '': Exception occurred'')"
    by blast
  then have "(0::int) < 3 \<and> 1 < length SIMULATION_FILES \<and> SIMULATION_FILES ! 1 = ?f
      \<longrightarrow> (\<exists>rs. fst (process_pool_map 3 (run_contam raising_os) SIMULATION_FILES [1] fresh)
                   = Inr rs
             \<and> length rs = length SIMULATION_FILES
             \<and> rs ! 1 = os_path_basename ?f @ '': Exception occurred'')"
    by blast
  with j
  have "\<exists>rs. fst (process_pool_map 3 (run_contam raising_os) SIMULATION_FILES [1] fresh)
                      = Inr rs
                 \<and> length rs = 3 \<and> rs ! 1 = ''sim2.prj: Exception occurred''"
    by (simp add: b)
  with h1 a1 a2 j r show ?thesis by simp
qed

subsection \<open>A log file that cannot be written\<close>

text \<open>
  Claim C5. When the process has completed and writing the log file of the simulation
  raises, \<open>run_contam\<close> still returns the "Completed" summary with the elapsed time and the
  return code of the process, and the last record of the run is the error record of the
  write. The summary is the one returned had the write succeeded: the value that
  \<open>run_contam\<close> returns is the same for every behaviour \<open>wr\<close> of the write.
\<close>

theorem artifact_write_failure:
  assumes "env_exists os sim_file (world s)"
    and "env_time os (world s) = (t0, w1)"
    and "env_getcwd os w1 = Inr cwd"
    and "env_run os [CONTAM_EXE os, sim_file] cwd w1 = (Inr result, w2)"
    and "env_time os w2 = (t1, w3)"
    and "env_write os (output_log_file (os_path_basename sim_file))
           (log_details os [CONTAM_EXE os, sim_file] (env_fsub os t1 t0) result) w3
         = (Some e, w4)"
  shows "fst (run_contam os sim_file s)
           = Inr (os_path_basename sim_file @ '': Completed in ''
                  @ env_fmt2 os (env_fsub os t1 t0)
                  @ '' seconds, Return Code: '' @ str_int (returncode result))
         \<and> last (trace (snd (run_contam os sim_file s)))
           = Log ERROR (''Error writing log file for '' @ os_path_basename sim_file
                        @ '': '' @ str_exc e)
         \<and> (\<forall>wr. fst (run_contam (os\<lparr>env_write := wr\<rparr>) sim_file s)
                 = fst (run_contam os sim_file s))"
proof -
  have "fst (run_contam (os\<lparr>env_write := wr\<rparr>) sim_file s) = fst (run_contam os sim_file s)"
    for wr
    by (simp add: run_contam_unfold CONTAM_EXE_def split: prod.splits sum.splits option.splits)
  moreover have "fst (run_contam os sim_file s)
           = Inr (os_path_basename sim_file @ '': Completed in ''
                  @ env_fmt2 os (env_fsub os t1 t0)
                  @ '' seconds, Return Code: '' @ str_int (returncode result))
         \<and> last (trace (snd (run_contam os sim_file s)))
           = Log ERROR (''Error writing log file for '' @ os_path_basename sim_file
                        @ '': '' @ str_exc e)"
    using assms by (simp add: run_contam_unfold)
  ultimately show ?thesis by blast
qed

theorem artifact_write_failure_witness:
  "env_exists unwritable_os ''simulations/sim1.prj'' (world fresh)
   \<and> fst (env_write unwritable_os (output_log_file ''sim1.prj'')
            (log_details unwritable_os [CONTAM_EXE unwritable_os, ''simulations/sim1.prj''] 1
               \<lparr>returncode = 0, stdout = ''OK'', stderr = []\<rparr>) (Suc (Suc 0)))
       = Some (PermissionError ''denied'')
   \<and> fst (run_contam unwritable_os ''simulations/sim1.prj'' fresh)
       = Inr ''sim1.prj: Completed in 1.00 seconds, Return Code: 0''
   \<and> last (trace (snd (run_contam unwritable_os ''simulations/sim1.prj'' fresh)))
       = Log ERROR ''Error writing log file for sim1.prj: denied''
   \<and> fst (run_contam (unwritable_os\<lparr>env_write := (\<lambda>p c w. (None, w))\<rparr>)
            ''simulations/sim1.prj'' fresh)
       = Inr ''sim1.prj: Completed in 1.00 seconds, Return Code: 0''"
proof -
  let ?cp = "\<lparr>returncode = 0, stdout = ''OK'', stderr = []\<rparr>"
  let ?f = "''simulations/sim1.prj''"
  have h1: "env_exists unwritable_os ?f (world fresh)"
    by (simp add: demo_unfold)
  have h2: "env_time unwritable_os (world fresh) = (0, Suc 0)"
    by (simp add: demo_unfold)
  have h3: "env_getcwd unwritable_os (Suc 0) = Inr ''/work''"
    by (simp add: demo_unfold)
  have h4: "env_run unwritable_os [CONTAM_EXE unwritable_os, ?f] ''/work'' (Suc 0)
              = (Inr ?cp, Suc 0)"
    by (simp add: demo_unfold)
  have h5: "env_time unwritable_os (Suc 0) = (Suc 0, Suc (Suc 0))"
    by (simp add: demo_unfold)
  have h6: "env_write unwritable_os (output_log_file (os_path_basename ?f))
              (log_details unwritable_os [CONTAM_EXE unwritable_os, ?f]
                 (env_fsub unwritable_os (Suc 0) 0) ?cp) (Suc (Suc 0))
            = (Some (PermissionError ''denied''), Suc (Suc 0))"
    by (simp add: demo_unfold)
  have w: "fst (env_write unwritable_os (output_log_file ''sim1.prj'')
            (log_details unwritable_os [CONTAM_EXE unwritable_os, ?f] 1 ?cp) (Suc (Suc 0)))
           = Some (PermissionError ''denied'')"
    by (simp add: demo_unfold)
  have e: "os_path_basename ?f = ''sim1.prj''"
    "env_fmt2 unwritable_os (env_fsub unwritable_os (Suc 0) 0) = ''1.00''"
    "str_int (returncode ?cp) = ''0''"
    by (simp_all add: demo_unfold os_path_basename_def str_int_def)
  note c = artifact_write_failure [OF h1 h2 h3 h4 h5 h6, unfolded e]
  from c have r: "fst (run_contam unwritable_os ?f fresh)
                    = Inr ''sim1.prj: Completed in 1.00 seconds, Return Code: 0''"
    by simp
  from c have l: "last (trace (snd (run_contam unwritable_os ?f fresh)))
                    = Log ERROR ''Error writing log file for sim1.prj: denied''"
    by simp
  from c have "fst (run_contam (unwritable_os\<lparr>env_write := (\<lambda>p c w. (None, w))\<rparr>) ?f fresh)
                 = fst (run_contam unwritable_os ?f fresh)"
    by blast
  with h1 w r l show ?thesis by simp
qed

subsection \<open>The exit code of the script\<close>

text \<open>
  Claim C6. When the executable does not exist at start-up, the script ends with exit code
  1, having logged that the executable was not found and nothing else: no job was attempted
  and the world is as it was. When the executable exists and the output directory exists or
  can be made, the script runs to its end, with exit code 0, whatever happens to the jobs
  (the operating system is arbitrary: files may be missing, launches may raise or return any
  code, writes may fail).
\<close>

theorem exit_codes:
  "(\<not> env_exists os (CONTAM_EXE os) (world s)
      \<longrightarrow> exit_code (fst (script os cs s)) = 1
          \<and> trace (snd (script os cs s))
             = trace s @ [Log ERROR (''Contam executable not found: '' @ CONTAM_EXE os)]
          \<and> world (snd (script os cs s)) = world s)
   \<and> (env_exists os (CONTAM_EXE os) (world s)
        \<and> (env_exists os ''output'' (world s)
            \<or> fst (env_makedirs os ''output'' (world s)) = None)
      \<longrightarrow> fst (script os cs s) = Finished \<and> exit_code (fst (script os cs s)) = 0)"
proof (intro conjI impI)
  assume "\<not> env_exists os (CONTAM_EXE os) (world s)"
  from script_missing_exe [OF this, of cs]
  show "exit_code (fst (script os cs s)) = 1"
    and "trace (snd (script os cs s))
           = trace s @ [Log ERROR (''Contam executable not found: '' @ CONTAM_EXE os)]"
    and "world (snd (script os cs s)) = world s"
    by simp_all
next
  assume a: "env_exists os (CONTAM_EXE os) (world s)
        \<and> (env_exists os ''output'' (world s)
            \<or> fst (env_makedirs os ''output'' (world s)) = None)"
  then have "fst (script os cs s) = Finished"
    using script_finishes by blast
  then show "fst (script os cs s) = Finished" and "exit_code (fst (script os cs s)) = 0"
    by simp_all
qed

theorem exit_codes_witness:
  "\<not> env_exists missing_os (CONTAM_EXE missing_os) (world fresh)
   \<and> exit_code (fst (script missing_os [] fresh)) = 1
   \<and> trace (snd (script missing_os [] fresh))
       = [Log ERROR ''Contam executable not found: /opt/contam/contamx3.exe'']
   \<and> env_exists raising_os (CONTAM_EXE raising_os) (world fresh)
   \<and> env_exists raising_os ''output'' (world fresh)
   \<and> fst (script raising_os [] fresh) = Finished
   \<and> exit_code (fst (script raising_os [] fresh)) = 0"
  using exit_codes [of missing_os fresh "[]"] exit_codes [of raising_os fresh "[]"]
  by (simp add: demo_unfold CONTAM_EXE_def os_path_join_def suffix_to_prefix)

subsection \<open>The check of the executable at start-up\<close>

text \<open>
  Claim C7, as the code has it. Before any job is dispatched the script checks that the path
  of the executable exists, and only that. When it does not exist the script ends at once
  with \<open>sys.exit(1)\<close>, having logged the error and attempted no job. When it exists the
  script does not end with \<open>sys.exit\<close>; when moreover the output directory exists or can
  be made, the script runs to its end and has dispatched every job of \<open>SIMULATION_FILES\<close>:
  the start record of each is among the events of the run. Whether the path is executable
  plays no part, the script being the same for every answer \<open>ax\<close> of
  \<open>os.access(p, os.X_OK)\<close>.
\<close>

theorem startup_check:
  "(\<not> env_exists os (CONTAM_EXE os) (world s)
      \<longrightarrow> fst (script os cs s) = SysExit 1
          \<and> trace (snd (script os cs s))
             = trace s @ [Log ERROR (''Contam executable not found: '' @ CONTAM_EXE os)])
   \<and> (env_exists os (CONTAM_EXE os) (world s) \<longrightarrow> (\<forall>n. fst (script os cs s) \<noteq> SysExit n))
   \<and> (env_exists os (CONTAM_EXE os) (world s)
        \<and> (env_exists os ''output'' (world s)
            \<or> fst (env_makedirs os ''output'' (world s)) = None)
      \<longrightarrow> fst (script os cs s) = Finished
          \<and> (\<forall>j \<in> set SIMULATION_FILES.
                start_record j \<in> set (events_since s (snd (script os cs s)))))
   \<and> (\<forall>ax. script (os\<lparr>env_access_x := ax\<rparr>) cs s = script os cs s)"
proof (intro conjI impI allI ballI)
  assume "\<not> env_exists os (CONTAM_EXE os) (world s)"
  from script_missing_exe [OF this, of cs]
  show "fst (script os cs s) = SysExit 1"
    and "trace (snd (script os cs s))
           = trace s @ [Log ERROR (''Contam executable not found: '' @ CONTAM_EXE os)]"
    by simp_all
next
  fix n
  assume "env_exists os (CONTAM_EXE os) (world s)"
  then show "fst (script os cs s) \<noteq> SysExit n"
    by (simp add: script_def os_path_exists_def split: prod.splits sum.splits)
next
  assume a: "env_exists os (CONTAM_EXE os) (world s)
        \<and> (env_exists os ''output'' (world s)
            \<or> fst (env_makedirs os ''output'' (world s)) = None)"
  then show "fst (script os cs s) = Finished"
    using script_finishes by blast
  fix j
  assume "j \<in> set SIMULATION_FILES"
  with a show "start_record j \<in> set (events_since s (snd (script os cs s)))"
    using script_dispatches by blast
next
  fix ax
  show "script (os\<lparr>env_access_x := ax\<rparr>) cs s = script os cs s"
    by (rule script_access_x)
qed

theorem startup_check_witness:
  "\<not> env_exists missing_os (CONTAM_EXE missing_os) (world fresh)
   \<and> fst (script missing_os [] fresh) = SysExit 1
   \<and> env_exists nonexec_os (CONTAM_EXE nonexec_os) (world fresh)
   \<and> env_exists nonexec_os ''output'' (world fresh)
   \<and> \<not> env_access_x nonexec_os (CONTAM_EXE nonexec_os) (world fresh)
   \<and> ''simulations/sim1.prj'' \<in> set SIMULATION_FILES
   \<and> fst (script nonexec_os [] fresh) = Finished
   \<and> Log INFO ''Starting simulation for sim1.prj''
       \<in> set (events_since fresh (snd (script nonexec_os [] fresh)))"
proof -
  have m: "\<not> env_exists missing_os (CONTAM_EXE missing_os) (world fresh)"
    by (simp add: demo_unfold)
  have e: "env_exists nonexec_os (CONTAM_EXE nonexec_os) (world fresh)"
    "env_exists nonexec_os ''output'' (world fresh)"
    "\<not> env_access_x nonexec_os (CONTAM_EXE nonexec_os) (world fresh)"
    by (simp_all add: demo_unfold)
  have j: "''simulations/sim1.prj'' \<in> set SIMULATION_FILES"
    by (simp add: SIMULATION_FILES_def os_path_join_def suffix_to_prefix)
  have r: "start_record ''simulations/sim1.prj'' = Log INFO ''Starting simulation for sim1.prj''"
    by (simp add: start_record_def os_path_basename_def)
  from startup_check [of missing_os fresh "[]"] m
  have 1: "fst (script missing_os [] fresh) = SysExit 1"
    by blast
  from startup_check [of nonexec_os fresh "[]"] e j
  have 2: "fst (script nonexec_os [] fresh) = Finished"
    and "start_record ''simulations/sim1.prj''
           \<in> set (events_since fresh (snd (script nonexec_os [] fresh)))"
    by blast+
  with m e j 1 r show ?thesis by simp
qed

text \<open>
  Claim C7 as stated fails: with an executable that exists and is not executable, the
  script does not fail fast. It dispatches the jobs (the launch for the first simulation
  file is in the trace) and runs to its end.
\<close>

theorem executable_check_counterexample:
  "env_exists nonexec_os (CONTAM_EXE nonexec_os) (world fresh)
   \<and> \<not> env_access_x nonexec_os (CONTAM_EXE nonexec_os) (world fresh)
   \<and> fst (script nonexec_os [] fresh) = Finished
   \<and> fst (script nonexec_os [] fresh) \<noteq> SysExit 1
   \<and> Subprocess [''/opt/contam/contamx3.exe'', ''simulations/sim1.prj''] ''/work''
       \<in> set (trace (snd (script nonexec_os [] fresh)))"
  by (simp add: script_def main_def process_pool_map_def pool_run.simps run_contam_unfold
        demo_unfold SIMULATION_FILES_def CONTAM_EXE_def
        os_path_join_def os_path_basename_def os_makedirs_def suffix_to_prefix
        enumerate_eq_zip)

subsection \<open>The path of the log file of a simulation\<close>

text \<open>
  Claim C8, as the code has it. When the process has completed, \<open>run_contam\<close> writes one
  file, at the output directory joined with the name of the simulation in which every
  occurrence of \<open>.prj\<close> is replaced by \<open>.log\<close>. When the name ends in \<open>.prj\<close> and has
  \<open>.prj\<close> nowhere else, as the names of \<open>SIMULATION_FILES\<close> do, that is
  \<open>output/stem.log\<close>, the name without its extension plus \<open>.log\<close>.
\<close>

theorem artifact_path:
  assumes "env_exists os sim_file (world s)"
    and "env_time os (world s) = (t0, w1)"
    and "env_getcwd os w1 = Inr cwd"
    and "env_run os [CONTAM_EXE os, sim_file] cwd w1 = (Inr result, w2)"
  shows "written_paths (events_since s (snd (run_contam os sim_file s)))
           = [os_path_join ''output''
                (str_replace ''.prj'' ''.log'' (os_path_basename sim_file))]
         \<and> (\<forall>stem. os_path_basename sim_file = stem @ ''.prj'' \<and> \<not> sublist ''.prj'' stem
               \<longrightarrow> written_paths (events_since s (snd (run_contam os sim_file s)))
                     = [''output/'' @ stem @ ''.log'']
                   \<and> ''output/'' @ stem @ ''.log''
                     = os_path_join ''output'' (spec_artifact_name (os_path_basename sim_file)))"
proof -
  have w: "written_paths (events_since s (snd (run_contam os sim_file s)))
           = [os_path_join ''output''
                (str_replace ''.prj'' ''.log'' (os_path_basename sim_file))]"
    using assms
    by (simp add: run_contam_unfold events_since_def output_log_file_def
             split: prod.splits option.splits)
  have "os_path_join ''output'' (str_replace ''.prj'' ''.log'' (os_path_basename sim_file))
          = ''output/'' @ stem @ ''.log''
        \<and> ''output/'' @ stem @ ''.log''
          = os_path_join ''output'' (spec_artifact_name (os_path_basename sim_file))"
    if name: "os_path_basename sim_file = stem @ ''.prj''" and ns: "\<not> sublist ''.prj'' stem"
    for stem
  proof -
    have "CHR ''/'' \<notin> set (stem @ ''.prj'')"
      using basename_no_sep [of sim_file] name by simp
    then have "\<not> prefix ''/'' (stem @ ''.log'')"
      by (cases stem) simp_all
    then have j: "os_path_join ''output'' (stem @ ''.log'') = ''output/'' @ stem @ ''.log''"
      by (simp add: os_path_join_def suffix_to_prefix)
    show ?thesis
      using j replace_prj_suffix [OF ns]
      by (simp add: name str_replace_def spec_artifact_name_prj)
  qed
  with w show ?thesis by simp
qed

theorem artifact_path_witness:
  "env_exists ok_os ''simulations/sim1.prj'' (world fresh)
   \<and> os_path_basename ''simulations/sim1.prj'' = ''sim1'' @ ''.prj''
   \<and> \<not> sublist ''.prj'' ''sim1''
   \<and> written_paths (events_since fresh (snd (run_contam ok_os ''simulations/sim1.prj'' fresh)))
       = [''output/sim1.log'']"
proof -
  have h1: "env_exists ok_os ''simulations/sim1.prj'' (world fresh)"
    by (simp add: demo_unfold)
  have h2: "env_time ok_os (world fresh) = (0, Suc 0)"
    by (simp add: demo_unfold)
  have h3: "env_getcwd ok_os (Suc 0) = Inr ''/work''"
    by (simp add: demo_unfold)
  have h4: "env_run ok_os [CONTAM_EXE ok_os, ''simulations/sim1.prj''] ''/work'' (Suc 0)
              = (Inr \<lparr>returncode = 0, stdout = ''OK'', stderr = []\<rparr>, Suc 0)"
    by (simp add: demo_unfold)
  have b: "os_path_basename ''simulations/sim1.prj'' = ''sim1'' @ ''.prj''"
    by (simp add: os_path_basename_def)
  have n: "\<not> sublist ''.prj'' ''sim1''"
    by (simp add: sublist_Cons_right)
  from artifact_path [OF h1 h2 h3 h4] b n
  have "written_paths (events_since fresh (snd (run_contam ok_os ''simulations/sim1.prj'' fresh)))
          = [''output/'' @ ''sim1'' @ ''.log'']"
    by blast
  with h1 b n show ?thesis by simp
qed

text \<open>
  Claim C8 as stated, for any job name, fails: for \<open>simulations/notes.txt\<close> the file is
  written at \<open>output/notes.txt\<close>, where the name without its extension plus \<open>.log\<close> is
  \<open>output/notes.log\<close>.
\<close>

theorem artifact_path_counterexample:
  "written_paths (trace (snd (run_contam ok_os ''simulations/notes.txt'' fresh)))
     = [''output/notes.txt'']
   \<and> os_path_join ''output'' (spec_artifact_name (os_path_basename ''simulations/notes.txt''))
     = ''output/notes.log''
   \<and> written_paths (trace (snd (run_contam ok_os ''simulations/notes.txt'' fresh)))
     \<noteq> [os_path_join ''output''
          (spec_artifact_name (os_path_basename ''simulations/notes.txt''))]"
  by (simp add: run_contam_unfold demo_unfold output_log_file_def str_replace_def
        os_path_join_def os_path_basename_def spec_artifact_name_def suffix_to_prefix)

subsection \<open>The text of the log file of a simulation\<close>

text \<open>
  Claim C9. When the process has completed, \<open>run_contam\<close> writes one file, the log file
  of the simulation, and the text it writes is made of the sections Command, Elapsed Time,
  Return Code, STDOUT and STDERR, in that order, each on its own lines, with the command
  line, the elapsed time, the return code and the two captured streams. The world that
  \<open>run_contam\<close> leaves is the one in which the operating system has carried out that
  write, of that text at that path, and when the write has not raised the last record of
  the run says that the text was written. For a process that printed \<open>OK\<close> and returned
  0, the text contains \<open>OK\<close> and \<open>Return Code: 0\<close>. (When the write raises, the run is
  that of claim C5.)
\<close>

theorem artifact_content:
  assumes "env_exists os sim_file (world s)"
    and "env_time os (world s) = (t0, w1)"
    and "env_getcwd os w1 = Inr cwd"
    and "env_run os [CONTAM_EXE os, sim_file] cwd w1 = (Inr result, w2)"
    and "env_time os w2 = (t1, w3)"
  shows "\<exists>content.
           content =
             ''Command: '' @ CONTAM_EXE os @ '' '' @ sim_file @ [CHR 0x0A]
             @ ''Elapsed Time: '' @ env_fmt2 os (env_fsub os t1 t0) @ '' seconds'' @ [CHR 0x0A]
             @ ''Return Code: '' @ str_int (returncode result) @ [CHR 0x0A]
             @ ''STDOUT:'' @ [CHR 0x0A] @ stdout result @ [CHR 0x0A]
             @ ''STDERR:'' @ [CHR 0x0A] @ stderr result @ [CHR 0x0A]
         \<and> FileWrite (output_log_file (os_path_basename sim_file)) content
             \<in> set (events_since s (snd (run_contam os sim_file s)))
         \<and> written_paths (events_since s (snd (run_contam os sim_file s)))
             = [output_log_file (os_path_basename sim_file)]
         \<and> world (snd (run_contam os sim_file s))
             = snd (env_write os (output_log_file (os_path_basename sim_file)) content w3)
         \<and> (fst (env_write os (output_log_file (os_path_basename sim_file)) content w3) = None
              \<longrightarrow> last (trace (snd (run_contam os sim_file s)))
                  = Log DEBUG (''Log details for '' @ os_path_basename sim_file
                      @ '' written to '' @ output_log_file (os_path_basename sim_file)))
         \<and> (stdout result = ''OK'' \<and> returncode result = 0
              \<longrightarrow> sublist ''OK'' content \<and> sublist ''Return Code: 0'' content)"
proof -
  let ?content = "log_details os [CONTAM_EXE os, sim_file] (env_fsub os t1 t0) result"
  let ?path = "output_log_file (os_path_basename sim_file)"
  obtain wr w4 where wr: "env_write os ?path ?content w3 = (wr, w4)"
    by (cases "env_write os ?path ?content w3")
  have ev: "FileWrite ?path ?content \<in> set (events_since s (snd (run_contam os sim_file s)))"
    using assms
    by (simp add: run_contam_unfold events_since_def split: prod.splits option.splits)
  have one: "written_paths (events_since s (snd (run_contam os sim_file s))) = [?path]"
    using assms
    by (simp add: run_contam_unfold events_since_def split: prod.splits option.splits)
  have w: "world (snd (run_contam os sim_file s)) = snd (env_write os ?path ?content w3)"
    using assms wr
    by (simp add: run_contam_unfold split: option.splits)
  have l: "last (trace (snd (run_contam os sim_file s)))
             = Log DEBUG (''Log details for '' @ os_path_basename sim_file
                          @ '' written to '' @ ?path)"
    if "fst (env_write os ?path ?content w3) = None"
    using assms wr that
    by (simp add: run_contam_unfold)
  have shape: "?content =
             ''Command: '' @ CONTAM_EXE os @ '' '' @ sim_file @ [CHR 0x0A]
             @ ''Elapsed Time: '' @ env_fmt2 os (env_fsub os t1 t0) @ '' seconds'' @ [CHR 0x0A]
             @ ''Return Code: '' @ str_int (returncode result) @ [CHR 0x0A]
             @ ''STDOUT:'' @ [CHR 0x0A] @ stdout result @ [CHR 0x0A]
             @ ''STDERR:'' @ [CHR 0x0A] @ stderr result @ [CHR 0x0A]"
    by (simp add: log_details_def)
  have ok: "sublist ''OK'' ?content \<and> sublist ''Return Code: 0'' ?content"
    if "stdout result = ''OK''" "returncode result = 0"
  proof
    let ?pre = "''Command: '' @ CONTAM_EXE os @ '' '' @ sim_file @ [CHR 0x0A]
             @ ''Elapsed Time: '' @ env_fmt2 os (env_fsub os t1 t0) @ '' seconds'' @ [CHR 0x0A]"
    have "?content = (?pre @ ''Return Code: 0'' @ [CHR 0x0A] @ ''STDOUT:'' @ [CHR 0x0A])
                      @ ''OK'' @ ([CHR 0x0A] @ ''STDERR:'' @ [CHR 0x0A] @ stderr result @ [CHR 0x0A])"
      using that by (simp add: log_details_def str_int_def)
    then show "sublist ''OK'' ?content"
      unfolding sublist_def by blast
    have "?content = ?pre @ ''Return Code: 0''
                      @ ([CHR 0x0A] @ ''STDOUT:'' @ [CHR 0x0A] @ ''OK'' @ [CHR 0x0A]
                         @ ''STDERR:'' @ [CHR 0x0A] @ stderr result @ [CHR 0x0A])"
      using that by (simp add: log_details_def str_int_def)
    then show "sublist ''Return Code: 0'' ?content"
      unfolding sublist_def by blast
  qed
  show ?thesis
  proof (intro exI [of _ ?content] conjI)
    show "?content =
             ''Command: '' @ CONTAM_EXE os @ '' '' @ sim_file @ [CHR 0x0A]
             @ ''Elapsed Time: '' @ env_fmt2 os (env_fsub os t1 t0) @ '' seconds'' @ [CHR 0x0A]
             @ ''Return Code: '' @ str_int (returncode result) @ [CHR 0x0A]
             @ ''STDOUT:'' @ [CHR 0x0A] @ stdout result @ [CHR 0x0A]
             @ ''STDERR:'' @ [CHR 0x0A] @ stderr result @ [CHR 0x0A]"
      by (rule shape)
    show "FileWrite ?path ?content \<in> set (events_since s (snd (run_contam os sim_file s)))"
      by (rule ev)
    show "written_paths (events_since s (snd (run_contam os sim_file s))) = [?path]"
      by (rule one)
    show "world (snd (run_contam os sim_file s)) = snd (env_write os ?path ?content w3)"
      by (rule w)
    show "fst (env_write os ?path ?content w3) = None
          \<longrightarrow> last (trace (snd (run_contam os sim_file s)))
              = Log DEBUG (''Log details for '' @ os_path_basename sim_file
                           @ '' written to '' @ ?path)"
      by (rule impI) (rule l)
    show "stdout result = ''OK'' \<and> returncode result = 0
          \<longrightarrow> sublist ''OK'' ?content \<and> sublist ''Return Code: 0'' ?content"
      by (rule impI, erule conjE) (rule ok; assumption)
  qed
qed

theorem artifact_content_witness:
  "env_exists fs_os ''simulations/sim1.prj'' (world empty_disk)
   \<and> fst (env_write fs_os ''output/sim1.log'' sim1_log (Suc (Suc 0), [])) = None
   \<and> stdout \<lparr>returncode = 0, stdout = ''OK'', stderr = []\<rparr> = ''OK''
   \<and> returncode \<lparr>returncode = 0, stdout = ''OK'', stderr = []\<rparr> = 0
   \<and> world (snd (run_contam fs_os ''simulations/sim1.prj'' empty_disk))
       = (Suc (Suc 0), [(''output/sim1.log'', sim1_log)])
   \<and> last (trace (snd (run_contam fs_os ''simulations/sim1.prj'' empty_disk)))
       = Log DEBUG ''Log details for sim1.prj written to output/sim1.log''
   \<and> sublist ''OK'' sim1_log \<and> sublist ''Return Code: 0'' sim1_log"
proof -
  let ?cp = "\<lparr>returncode = 0, stdout = ''OK'', stderr = []\<rparr>"
  let ?f = "''simulations/sim1.prj''"
  have h1: "env_exists fs_os ?f (world empty_disk)"
    by (simp add: fs_os_def)
  have h2: "env_time fs_os (world empty_disk) = (0, (Suc 0, []))"
    by (simp add: fs_os_def empty_disk_def)
  have h3: "env_getcwd fs_os (Suc 0, []) = Inr ''/work''"
    by (simp add: fs_os_def)
  have h4: "env_run fs_os [CONTAM_EXE fs_os, ?f] ''/work'' (Suc 0, []) = (Inr ?cp, (Suc 0, []))"
    by (simp add: fs_os_def)
  have h5: "env_time fs_os (Suc 0, []) = (Suc 0, (Suc (Suc 0), []))"
    by (simp add: fs_os_def)
  have b: "os_path_basename ?f = ''sim1.prj''"
    by (simp add: os_path_basename_def)
  have p: "output_log_file ''sim1.prj'' = ''output/sim1.log''"
    by (simp add: output_log_file_def str_replace_def os_path_join_def suffix_to_prefix)
  have wr: "fst (env_write fs_os ''output/sim1.log'' sim1_log (Suc (Suc 0), [])) = None"
    by (simp add: fs_os_def)
  let ?content =
      "''Command: '' @ CONTAM_EXE fs_os @ '' '' @ ?f @ [CHR 0x0A]
       @ ''Elapsed Time: '' @ env_fmt2 fs_os (env_fsub fs_os (Suc 0) 0) @ '' seconds'' @ [CHR 0x0A]
       @ ''Return Code: '' @ str_int (returncode ?cp) @ [CHR 0x0A]
       @ ''STDOUT:'' @ [CHR 0x0A] @ stdout ?cp @ [CHR 0x0A]
       @ ''STDERR:'' @ [CHR 0x0A] @ stderr ?cp @ [CHR 0x0A]"
  note c = artifact_content [OF h1 h2 h3 h4 h5, unfolded b p]
  have c0: "?content = sim1_log"
    unfolding sim1_log_def
    by (simp add: fs_os_def CONTAM_EXE_def os_path_join_def suffix_to_prefix str_int_def)
  from c have "world (snd (run_contam fs_os ?f empty_disk))
       = snd (env_write fs_os ''output/sim1.log'' ?content (Suc (Suc 0), []))"
    by (elim exE conjE) (hypsubst, assumption)
  then have w: "world (snd (run_contam fs_os ?f empty_disk))
                       = (Suc (Suc 0), [(''output/sim1.log'', sim1_log)])"
    unfolding c0 by (simp add: fs_os_def)
  from c have "fst (env_write fs_os ''output/sim1.log'' ?content (Suc (Suc 0), [])) = None
       \<longrightarrow> last (trace (snd (run_contam fs_os ?f empty_disk)))
           = Log DEBUG (''Log details for '' @ ''sim1.prj'' @ '' written to '' @ ''output/sim1.log'')"
    by (elim exE conjE) (hypsubst, assumption)
  with wr have l: "last (trace (snd (run_contam fs_os ?f empty_disk)))
       = Log DEBUG ''Log details for sim1.prj written to output/sim1.log''"
    unfolding c0 by simp
  from c have "stdout ?cp = ''OK'' \<and> returncode ?cp = 0
       \<longrightarrow> sublist ''OK'' ?content \<and> sublist ''Return Code: 0'' ?content"
    by (elim exE conjE) (hypsubst, assumption)
  then have s: "sublist ''OK'' sim1_log \<and> sublist ''Return Code: 0'' sim1_log"
    unfolding c0 by simp
  from h1 wr w l s show ?thesis by simp
qed

subsection \<open>run\_contam always returns\<close>

text \<open>
  Claim C10. For every simulation file, every state and every behaviour of the operating
  system, \<open>run_contam\<close> returns a summary string and no exception leaves it: the summary
  is that of a missing file, that of a launch that raised, or that of a completed process.
  The launch and the write of the log file, the two calls that can raise, are handled.
\<close>

theorem run_contam_total:
  "\<exists>summary. fst (run_contam os sim_file s) = Inr summary
     \<and> (summary = os_path_basename sim_file @ '': File not found''
        \<or> summary = os_path_basename sim_file @ '': Exception occurred''
        \<or> (\<exists>elapsed code. summary = os_path_basename sim_file @ '': Completed in '' @ elapsed
               @ '' seconds, Return Code: '' @ str_int code))"
  by (simp add: run_contam_unfold split: prod.splits sum.splits option.splits) blast

theorem run_contam_total_witness:
  "\<exists>summary. fst (run_contam unwritable_os ''simulations/sim3.prj'' fresh) = Inr summary"
  using run_contam_total [of unwritable_os "''simulations/sim3.prj''" fresh]
  by blast

end
